theory Spec2Isabelle
  imports Complex_Main
begin

section \<open>The asset selling model\<close>

text \<open>
  A shallow embedding of \<^verbatim>\<open>AssetSelling/AssetSellingModel.py\<close>, class
  \<^verbatim>\<open>AssetSellingModel\<close>.

  Modelling choices:
  \<^item> Python floats are idealised as \<open>real\<close>: rounding, infinities and NaN are left out.
    Python integers are \<open>int\<close>.
  \<^item> The named tuples \<^verbatim>\<open>State\<close> and \<^verbatim>\<open>Decision\<close> are records. The
    source shapes them from the lists \<^verbatim>\<open>state_variable\<close> and
    \<^verbatim>\<open>decision_variable\<close>; every \<^verbatim>\<open>step\<close> reads the attributes
    \<^verbatim>\<open>bias\<close>, \<^verbatim>\<open>price\<close>, \<^verbatim>\<open>resource\<close> and \<^verbatim>\<open>price_smoothed\<close> of the state and
    rebuilds the state from a dictionary with exactly these four keys, so the records
    cover the schemas under which a step can complete: \<^verbatim>\<open>state_variable\<close> lists these
    four names, \<^verbatim>\<open>decision_variable\<close> contains \<^verbatim>\<open>sell\<close>.
  \<^item> A dictionary with a fixed set of possible keys is a record of options: \<open>None\<close> is
    an absent key, and reading it is a \<^verbatim>\<open>KeyError\<close>.
  \<^item> Exceptions are values of \<open>py_error\<close>; a method that can raise returns
    \<open>py_error + 'a\<close>. The model object reached when an exception leaves a method is
    not represented.
  \<^item> A method that assigns to an attribute of \<^verbatim>\<open>self\<close> returns the updated model.
  \<^item> The random source \<^verbatim>\<open>numpy.random.Generator\<close> is not part of the repository.
    Its three operations used by the class are taken as a parameter, over an arbitrary
    type \<open>'g\<close> of generator states. So is \<^verbatim>\<open>collections.namedtuple\<close>, as the check
    of field names it makes.
  \<^item> A model holds the contents of its \<^verbatim>\<open>exog_params\<close> dictionary. In the source this
    is the very dictionary the caller passed; what construction writes into it is
    returned by \<open>init\<close> beside the model. The model's field is the dictionary's
    contents for as long as nothing writes to the dictionary again (no method of the
    class does after construction; a second construction from the same dictionary
    would).
\<close>

subsection \<open>Errors\<close>

datatype py_error = KeyError string | ValueError string

subsection \<open>The bias table\<close>

text \<open>
  A \<^verbatim>\<open>pandas.DataFrame\<close> of numbers: the ordered column labels, and the rows in order,
  each with its index label and its values in column order. Labels are taken to be
  distinct (a lookup finds the first).
\<close>

record dataframe =
  df_columns :: "string list"
  df_rows :: "(string \<times> real list) list"

type_synonym series = "(string \<times> real) list"

text \<open>Running sums of a row, left to right.\<close>

fun cumsum_from :: "real \<Rightarrow> real list \<Rightarrow> real list" where
  "cumsum_from acc [] = []"
| "cumsum_from acc (x # xs) = (acc + x) # cumsum_from (acc + x) xs"

text \<open>\<^verbatim>\<open>df.cumsum(axis=1)\<close>: a new table, every row replaced by its running sums.\<close>

definition cumsum_axis1 :: "dataframe \<Rightarrow> dataframe" where
  "cumsum_axis1 df = df\<lparr>df_rows := map (\<lambda>(k, vs). (k, cumsum_from 0 vs)) (df_rows df)\<rparr>"

text \<open>\<^verbatim>\<open>df.T[k]\<close>: the row of \<open>df\<close> labelled \<open>k\<close>, as a series over the column labels.\<close>

definition df_T_getitem :: "dataframe \<Rightarrow> string \<Rightarrow> py_error + series" where
  "df_T_getitem df k =
     (case map_of (df_rows df) k of
        None \<Rightarrow> Inl (KeyError k)
      | Some vs \<Rightarrow> Inr (zip (df_columns df) vs))"

text \<open>\<^verbatim>\<open>s[k]\<close> on a series.\<close>

definition series_getitem :: "series \<Rightarrow> string \<Rightarrow> py_error + real" where
  "series_getitem s k =
     (case map_of s k of None \<Rightarrow> Inl (KeyError k) | Some v \<Rightarrow> Inr v)"

subsection \<open>Records of the model\<close>

text \<open>The dictionary \<^verbatim>\<open>exog_0\<close> (\<^verbatim>\<open>exog_params\<close>).\<close>

record exog_params =
  biasdf :: "dataframe option"
  UpStep :: "real option"
  DownStep :: "real option"
  Variance :: "real option"

text \<open>\<^verbatim>\<open>d[k]\<close> on a dictionary entry that may be absent.\<close>

definition getitem :: "'a option \<Rightarrow> string \<Rightarrow> py_error + 'a" where
  "getitem v k = (case v of None \<Rightarrow> Inl (KeyError k) | Some x \<Rightarrow> Inr x)"

record State =
  resource :: int
  price :: real
  price_smoothed :: real
  bias :: string

record Decision =
  sell :: int

text \<open>
  The dictionaries the methods pass around: the argument of \<^verbatim>\<open>build_state\<close>, the result
  of \<^verbatim>\<open>exog_info_fn\<close> and the result of \<^verbatim>\<open>transition_fn\<close>.
\<close>

record info =
  i_resource :: int
  i_price :: real
  i_price_smoothed :: real
  i_bias :: string

record exog_info =
  ei_price :: real
  ei_bias :: string

record transition_info =
  tr_resource :: int
  tr_price_smoothed :: real

text \<open>
  The caller's dictionary \<^verbatim>\<open>state_0\<close>: the four entries a state is made of, each
  present or not, and the other keys it has.
\<close>

record state_dict =
  d_resource :: "int option"
  d_price :: "real option"
  d_price_smoothed :: "real option"
  d_bias :: "string option"
  d_other_keys :: "string list"

record initial_args =
  seed :: int
  T :: int
  exog_params :: exog_params

record 'g model =
  initial_args :: initial_args
  prng :: 'g
  initial_state :: state_dict
  state_variable :: "string list"
  decision_variable :: "string list"
  state :: State
  objective :: real

subsection \<open>The random source\<close>

text \<open>
  \<^verbatim>\<open>np.random.default_rng(seed)\<close>, \<^verbatim>\<open>Generator.uniform()\<close> and
  \<^verbatim>\<open>Generator.normal(loc, scale)\<close>. A draw returns its value and the generator's next
  state; \<open>default_rng\<close> may raise (numpy rejects a negative seed), and so may \<open>normal\<close>
  (numpy rejects a negative scale).
\<close>

record 'g rng =
  default_rng :: "int \<Rightarrow> py_error + 'g"
  uniform :: "'g \<Rightarrow> real \<times> 'g"
  normal :: "real \<Rightarrow> real \<Rightarrow> 'g \<Rightarrow> py_error + real \<times> 'g"

subsection \<open>The methods\<close>

definition build_state :: "info \<Rightarrow> State" where
  "build_state i =
     \<lparr>resource = i_resource i, price = i_price i,
      price_smoothed = i_price_smoothed i, bias = i_bias i\<rparr>"

definition build_decision :: "int \<Rightarrow> Decision" where
  "build_decision s = \<lparr>sell = s\<rparr>"

text \<open>
  What a call of \<^verbatim>\<open>__init__\<close> comes to: an exception, a model, or a model whose
  \<^verbatim>\<open>State\<close> has other fields than the four of the record \<open>State\<close> (every step of such
  a model raises; the records do not represent it).
\<close>

datatype 'a construction = Raised py_error | Returned 'a | Other_shape

text \<open>\<^verbatim>\<open>k in d\<close> for the dictionary \<^verbatim>\<open>state_0\<close>.\<close>

definition has_key :: "state_dict \<Rightarrow> string \<Rightarrow> bool" where
  "has_key d k =
     (if k = ''resource'' then d_resource d \<noteq> None
      else if k = ''price'' then d_price d \<noteq> None
      else if k = ''price_smoothed'' then d_price_smoothed d \<noteq> None
      else if k = ''bias'' then d_bias d \<noteq> None
      else k \<in> set (d_other_keys d))"

text \<open>
  \<^verbatim>\<open>[info[k] for k in self.state_variable]\<close> on \<^verbatim>\<open>state_0\<close> raises a
  \<^verbatim>\<open>KeyError\<close> at the first name of the schema that is not a key.
\<close>

fun first_missing :: "state_dict \<Rightarrow> string list \<Rightarrow> string option" where
  "first_missing d [] = None"
| "first_missing d (k # ks) = (if has_key d k then first_missing d ks else Some k)"

text \<open>
  The state that \<^verbatim>\<open>build_state(state_0)\<close> returns, when the schema lists the four
  fields of the record \<open>State\<close>, each once, and \<^verbatim>\<open>state_0\<close> has them.
\<close>

definition typed_state :: "string list \<Rightarrow> state_dict \<Rightarrow> State option" where
  "typed_state sv d =
     (if distinct sv \<and> set sv = {''resource'', ''price'', ''price_smoothed'', ''bias''} then
        (case d_resource d of None \<Rightarrow> None | Some r \<Rightarrow>
        (case d_price d of None \<Rightarrow> None | Some p \<Rightarrow>
        (case d_price_smoothed d of None \<Rightarrow> None | Some ps \<Rightarrow>
        (case d_bias d of None \<Rightarrow> None | Some b \<Rightarrow>
           Some \<lparr>resource = r, price = p, price_smoothed = ps, bias = b\<rparr>))))
      else None)"

text \<open>
  \<^verbatim>\<open>__init__\<close>, in the order of the source: read \<^verbatim>\<open>biasdf\<close>; cumulate it and write
  it back; make the generator; make the \<^verbatim>\<open>State\<close> class; build the first state; make
  the \<^verbatim>\<open>Decision\<close> class. The parameter \<open>namedtuple\<close> tells, for a class name and a
  list of field names, whether \<^verbatim>\<open>collections.namedtuple\<close> raises.

  \<^verbatim>\<open>initial_args["exog_params"]\<close> is the caller's dictionary \<^verbatim>\<open>exog_0\<close> itself, and
  \<^verbatim>\<open>update\<close> overwrites its \<^verbatim>\<open>biasdf\<close> entry in place. The second component of
  the result is that dictionary as the call leaves it: unchanged when \<^verbatim>\<open>biasdf\<close> is
  missing, and with the cumulated table otherwise, also when a later line raises. A
  caller who constructs again from the same dictionary passes this second component.
\<close>

definition init ::
  "'g rng \<Rightarrow> (string \<Rightarrow> string list \<Rightarrow> py_error option) \<Rightarrow> string list \<Rightarrow> string list
     \<Rightarrow> state_dict \<Rightarrow> exog_params \<Rightarrow> int \<Rightarrow> int
     \<Rightarrow> 'g model construction \<times> exog_params" where
  "init rng namedtuple state_variable' decision_variable' state_0 exog_0 T' seed' =
     (case getitem (biasdf exog_0) ''biasdf'' of
        Inl e \<Rightarrow> (Raised e, exog_0)
      | Inr df \<Rightarrow>
          (let exog = exog_0\<lparr>biasdf := Some (cumsum_axis1 df)\<rparr> in
           ((case default_rng rng seed' of
               Inl e \<Rightarrow> Raised e
             | Inr g \<Rightarrow>
             (case namedtuple ''State'' state_variable' of
               Some e \<Rightarrow> Raised e
             | None \<Rightarrow>
             (case first_missing state_0 state_variable' of
               Some k \<Rightarrow> Raised (KeyError k)
             | None \<Rightarrow>
             (case namedtuple ''Decision'' decision_variable' of
               Some e \<Rightarrow> Raised e
             | None \<Rightarrow>
             (case typed_state state_variable' state_0 of
               None \<Rightarrow> Other_shape
             | Some s \<Rightarrow>
                 Returned \<lparr>initial_args = \<lparr>seed = seed', T = T', exog_params = exog\<rparr>,
                           prng = g,
                           initial_state = state_0,
                           state_variable = state_variable',
                           decision_variable = decision_variable',
                           state = s,
                           objective = 0\<rparr>))))),
            exog)))"

text \<open>
  The drift of the \<^verbatim>\<open>else\<close> branch of \<^verbatim>\<open>exog_info_fn\<close>.
\<close>

definition down_branch :: "exog_params \<Rightarrow> py_error + string \<times> real" where
  "down_branch exog =
     (case getitem (DownStep exog) ''DownStep'' of
        Inl e \<Rightarrow> Inl e
      | Inr b \<Rightarrow> Inr (''Down'', b))"

text \<open>
  The \<^verbatim>\<open>if/elif/else\<close> of \<^verbatim>\<open>exog_info_fn\<close>: the new regime and the drift. The
  \<^verbatim>\<open>Neutral\<close> entry is read only when \<^verbatim>\<open>coin >= biasprob["Up"]\<close> holds, the
  \<^verbatim>\<open>Down\<close> entry never.
\<close>

definition select_bias :: "exog_params \<Rightarrow> series \<Rightarrow> real \<Rightarrow> py_error + string \<times> real" where
  "select_bias exog biasprob coin =
     (case series_getitem biasprob ''Up'' of
        Inl e \<Rightarrow> Inl e
      | Inr up \<Rightarrow>
          if coin < up then
            (case getitem (UpStep exog) ''UpStep'' of
               Inl e \<Rightarrow> Inl e
             | Inr b \<Rightarrow> Inr (''Up'', b))
          else if coin \<ge> up then
            (case series_getitem biasprob ''Neutral'' of
               Inl e \<Rightarrow> Inl e
             | Inr neutral \<Rightarrow>
                 if coin < neutral then Inr (''Neutral'', 0) else down_branch exog)
          else down_branch exog)"

definition exog_info_fn :: "'g rng \<Rightarrow> 'g model \<Rightarrow> py_error + exog_info \<times> 'g model" where
  "exog_info_fn rng m =
     (let exog = exog_params (initial_args m) in
      case getitem (biasdf exog) ''biasdf'' of
        Inl e \<Rightarrow> Inl e
      | Inr df \<Rightarrow>
      (case df_T_getitem df (bias (state m)) of
        Inl e \<Rightarrow> Inl e
      | Inr biasprob \<Rightarrow>
      (case uniform rng (prng m) of (coin, g1) \<Rightarrow>
      (case select_bias exog biasprob coin of
        Inl e \<Rightarrow> Inl e
      | Inr (new_bias, b) \<Rightarrow>
      (case getitem (Variance exog) ''Variance'' of
        Inl e \<Rightarrow> Inl e
      | Inr scale \<Rightarrow>
      (case normal rng b scale g1 of
        Inl e \<Rightarrow> Inl e
      | Inr (price_delta, g2) \<Rightarrow>
          (let updated_price = price (state m) + price_delta;
               new_price = (if updated_price < 0 then 0 else updated_price)
           in Inr (\<lparr>ei_price = new_price, ei_bias = new_bias\<rparr>, m\<lparr>prng := g2\<rparr>))))))))"

definition transition_fn :: "'g model \<Rightarrow> Decision \<Rightarrow> exog_info \<Rightarrow> transition_info" where
  "transition_fn m decision ei =
     (let alpha = 7 / 10;
          new_resource = (if sell decision = 1 then 0 else resource (state m));
          new_price_smoothed =
            (1 - alpha) * price_smoothed (state m) + alpha * ei_price ei
      in \<lparr>tr_resource = new_resource, tr_price_smoothed = new_price_smoothed\<rparr>)"

definition objective_fn :: "'g model \<Rightarrow> Decision \<Rightarrow> exog_info \<Rightarrow> real" where
  "objective_fn m decision ei =
     (let sell_size = (if sell decision = 1 \<and> resource (state m) \<noteq> 0 then 1 else 0);
          obj_part = price (state m) * sell_size
      in obj_part)"

text \<open>
  \<^verbatim>\<open>step\<close>: returns the new state and the updated model. \<^verbatim>\<open>exog_info.update(...)\<close>
  adds the two keys of the transition to the two keys of the generator.
\<close>

definition step :: "'g rng \<Rightarrow> 'g model \<Rightarrow> Decision \<Rightarrow> py_error + State \<times> 'g model" where
  "step rng m decision =
     (case exog_info_fn rng m of
        Inl e \<Rightarrow> Inl e
      | Inr (ei, m1) \<Rightarrow>
          (let m2 = m1\<lparr>objective := objective m1 + objective_fn m1 decision ei\<rparr>;
               tr = transition_fn m2 decision ei;
               updated = \<lparr>i_resource = tr_resource tr, i_price = ei_price ei,
                          i_price_smoothed = tr_price_smoothed tr, i_bias = ei_bias ei\<rparr>;
               m3 = m2\<lparr>state := build_state updated\<rparr>
           in Inr (state m3, m3)))"

text \<open>
  The caller's loop: one \<^verbatim>\<open>step\<close> per decision, in order, stopping at the first
  exception. The result lists the model after each step (its \<open>state\<close> is the state
  that step returned, its \<open>objective\<close> the running total after that step).
\<close>

fun run :: "'g rng \<Rightarrow> 'g model \<Rightarrow> Decision list \<Rightarrow> py_error + 'g model list" where
  "run rng m [] = Inr []"
| "run rng m (d # ds) =
     (case step rng m d of
        Inl e \<Rightarrow> Inl e
      | Inr (s, m') \<Rightarrow>
          (case run rng m' ds of
             Inl e \<Rightarrow> Inl e
           | Inr ms \<Rightarrow> Inr (m' # ms)))"

subsection \<open>A scripted random source and a sample configuration\<close>

text \<open>
  A generator that replays a list of prepared draws: \<open>uniform\<close> returns the next entry,
  \<open>normal loc scale\<close> returns \<open>loc + scale * z\<close> for the next entry \<open>z\<close>. An exhausted
  list yields \<open>0\<close>. Every seed that numpy accepts starts the same list \<open>zs\<close>.
\<close>

definition script_rng :: "real list \<Rightarrow> real list rng" where
  "script_rng zs =
     \<lparr>default_rng = (\<lambda>seed.
        if seed < 0 then Inl (ValueError ''expected non-negative integer'') else Inr zs),
      uniform = (\<lambda>g. case g of [] \<Rightarrow> (0, []) | z # g' \<Rightarrow> (z, g')),
      normal = (\<lambda>loc scale g.
        if scale < 0 then Inl (ValueError ''scale < 0'')
        else (case g of [] \<Rightarrow> Inr (loc, []) | z # g' \<Rightarrow> Inr (loc + scale * z, g')))\<rparr>"

definition sample_biasdf :: dataframe where
  "sample_biasdf =
     \<lparr>df_columns = [''Up'', ''Neutral'', ''Down''],
      df_rows = [(''Up'', [9 / 10, 1 / 10, 0]),
                 (''Neutral'', [3 / 10, 4 / 10, 3 / 10]),
                 (''Down'', [0, 1 / 10, 9 / 10])]\<rparr>"

definition sample_exog :: "dataframe \<Rightarrow> exog_params" where
  "sample_exog df =
     \<lparr>biasdf = Some df, UpStep = Some 1, DownStep = Some (- 1), Variance = Some 2\<rparr>"

definition sample_state_0 :: "int \<Rightarrow> state_dict" where
  "sample_state_0 r =
     \<lparr>d_resource = Some r, d_price = Some 10, d_price_smoothed = Some 10,
      d_bias = Some ''Neutral'', d_other_keys = []\<rparr>"

text \<open>
  A check of field names that rejects a repeated and an empty name (Python rejects
  more: a name that is not an identifier, a keyword, a leading underscore).
\<close>

definition plain_namedtuple :: "string \<Rightarrow> string list \<Rightarrow> py_error option" where
  "plain_namedtuple typename field_names =
     (if distinct field_names \<and> [] \<notin> set field_names then None
      else Some (ValueError ''invalid field names''))"

text \<open>A model as \<open>init\<close> leaves it, for the sample configuration with table \<open>df\<close>.\<close>

definition sample_model :: "dataframe \<Rightarrow> int \<Rightarrow> real list \<Rightarrow> real list model" where
  "sample_model df r zs =
     \<lparr>initial_args = \<lparr>seed = 42, T = 10, exog_params = sample_exog (cumsum_axis1 df)\<rparr>,
      prng = zs,
      initial_state = sample_state_0 r,
      state_variable = [''resource'', ''price'', ''price_smoothed'', ''bias''],
      decision_variable = [''sell''],
      state = \<lparr>resource = r, price = 10, price_smoothed = 10, bias = ''Neutral''\<rparr>,
      objective = 0\<rparr>"

text \<open>
  A table whose \<^verbatim>\<open>Neutral\<close> row gives probability \<open>0\<close> to staying neutral: after
  cumulation its \<^verbatim>\<open>Up\<close> and \<^verbatim>\<open>Neutral\<close> thresholds coincide.
\<close>

definition tie_biasdf :: dataframe where
  "tie_biasdf =
     \<lparr>df_columns = [''Up'', ''Neutral'', ''Down''],
      df_rows = [(''Up'', [3 / 4, 1 / 4, 0]),
                 (''Neutral'', [1 / 4, 0, 3 / 4]),
                 (''Down'', [0, 1 / 4, 3 / 4])]\<rparr>"

text \<open>
  Two tables a caller may pass: one whose \<^verbatim>\<open>Up\<close> row sums to \<open>7/8\<close>, and one without
  a \<^verbatim>\<open>Down\<close> column.
\<close>

definition short_biasdf :: dataframe where
  "short_biasdf =
     \<lparr>df_columns = [''Up'', ''Neutral'', ''Down''],
      df_rows = [(''Up'', [1 / 2, 1 / 4, 1 / 8]),
                 (''Neutral'', [1 / 4, 1 / 2, 1 / 4]),
                 (''Down'', [0, 1 / 4, 3 / 4])]\<rparr>"

definition no_down_biasdf :: dataframe where
  "no_down_biasdf =
     \<lparr>df_columns = [''Up'', ''Neutral''],
      df_rows = [(''Up'', [3 / 4, 1 / 4]),
                 (''Neutral'', [1 / 2, 1 / 2]),
                 (''Down'', [1 / 4, 3 / 4])]\<rparr>"

section \<open>What a completed call has done\<close>

text \<open>
  A call of \<^verbatim>\<open>exog_info_fn\<close> that returns has found the table and the row of the current
  regime, drawn the coin, selected a regime and a drift, found \<^verbatim>\<open>Variance\<close>, drawn the
  price change, and clamped the sum.
\<close>

lemma exog_info_fn_Inr:
  assumes "exog_info_fn rng m = Inr (ei, m1)"
  shows "\<exists>df biasprob b scale delta g2.
           biasdf (exog_params (initial_args m)) = Some df \<and>
           df_T_getitem df (bias (state m)) = Inr biasprob \<and>
           select_bias (exog_params (initial_args m)) biasprob (fst (uniform rng (prng m)))
             = Inr (ei_bias ei, b) \<and>
           Variance (exog_params (initial_args m)) = Some scale \<and>
           normal rng b scale (snd (uniform rng (prng m))) = Inr (delta, g2) \<and>
           ei_price ei = (if price (state m) + delta < 0 then 0 else price (state m) + delta) \<and>
           m1 = m\<lparr>prng := g2\<rparr>"
  using assms
  by (auto simp: exog_info_fn_def getitem_def Let_def
           split: option.splits sum.splits prod.splits)

lemma step_Inr:
  assumes "step rng m d = Inr (s', m')"
  shows "\<exists>ei m1. exog_info_fn rng m = Inr (ei, m1) \<and>
           s' = \<lparr>resource = (if sell d = 1 then 0 else resource (state m)),
                 price = ei_price ei,
                 price_smoothed = (1 - 7 / 10) * price_smoothed (state m) + 7 / 10 * ei_price ei,
                 bias = ei_bias ei\<rparr> \<and>
           m' = m1\<lparr>objective := objective m + objective_fn m d ei, state := s'\<rparr>"
  using assms
  by (auto simp: step_def Let_def build_state_def transition_fn_def objective_fn_def
           dest!: exog_info_fn_Inr split: sum.splits prod.splits)

lemma step_isl: "isl (step rng m d) = isl (exog_info_fn rng m)"
  by (auto simp: step_def Let_def split: sum.splits prod.splits)

text \<open>The equations that evaluate a call on the sample configuration.\<close>

lemmas eval_defs = step_def exog_info_fn_def select_bias_def down_branch_def getitem_def
  df_T_getitem_def series_getitem_def cumsum_axis1_def sample_model_def sample_biasdf_def
  sample_exog_def sample_state_0_def script_rng_def build_state_def transition_fn_def
  objective_fn_def tie_biasdf_def Let_def

section \<open>The contribution of a step\<close>

text \<open>
  C1. A step that returns has added to \<open>objective\<close> the price of the state it started
  from when \<open>sell = 1\<close> and that state's \<open>resource\<close> is not \<open>0\<close>, and \<open>0\<close> otherwise. In
  particular a sale with \<open>resource = 0\<close> adds \<open>0\<close>. The contribution never raises: a step
  raises exactly when the generator does, whatever the decision and the resource.
\<close>

theorem step_objective_contribution:
  "(step rng m decision = Inr (s', m') \<longrightarrow>
      objective m' = objective m +
        (if sell decision = 1 \<and> resource (state m) \<noteq> 0 then price (state m) else 0)) \<and>
   (step rng m decision = Inr (s', m') \<and> sell decision = 1 \<and> resource (state m) = 0 \<longrightarrow>
      objective m' = objective m) \<and>
   isl (step rng m decision) = isl (exog_info_fn rng m)"
  by (auto simp: step_isl objective_fn_def dest!: step_Inr exog_info_fn_Inr)

text \<open>
  A sale with nothing held, on the sample configuration: the step returns and the
  objective stays \<open>0\<close>.
\<close>

theorem step_objective_contribution_witness:
  "step (script_rng []) (sample_model sample_biasdf 0 [1 / 2, 0]) \<lparr>sell = 1\<rparr>
     = Inr (\<lparr>resource = 0, price = 10, price_smoothed = 10, bias = ''Neutral''\<rparr>,
            sample_model sample_biasdf 0 []) \<and>
   objective (sample_model sample_biasdf 0 [] :: real list model) = 0 \<and>
   \<not> isl (step (script_rng []) (sample_model sample_biasdf 0 [1 / 2, 0]) \<lparr>sell = 1\<rparr>)"
  using step_objective_contribution
          [of "script_rng []" "sample_model sample_biasdf 0 [1 / 2, 0]" "\<lparr>sell = 1\<rparr>"
              "\<lparr>resource = 0, price = 10, price_smoothed = 10, bias = ''Neutral''\<rparr>"
              "sample_model sample_biasdf 0 []"]
  by (simp add: eval_defs)

section \<open>The choice of the regime\<close>

text \<open>
  With the thresholds of the \<^verbatim>\<open>Neutral\<close> row of \<open>tie_biasdf\<close> both \<open>1/4\<close>, a coin of
  exactly \<open>1/4\<close> selects \<^verbatim>\<open>Down\<close>: a coin equal to the \<^verbatim>\<open>Up\<close> threshold does not always
  select \<^verbatim>\<open>Neutral\<close>.
\<close>

theorem regime_tie_counterexample:
  "df_T_getitem (cumsum_axis1 tie_biasdf) ''Neutral''
     = Inr [(''Up'', 1 / 4), (''Neutral'', 1 / 4), (''Down'', 1)] \<and>
   uniform (script_rng []) [1 / 4, 0] = (1 / 4, [0]) \<and>
   exog_info_fn (script_rng []) (sample_model tie_biasdf 1 [1 / 4, 0])
     = Inr (\<lparr>ei_price = 9, ei_bias = ''Down''\<rparr>, sample_model tie_biasdf 1 [])"
  by (simp add: eval_defs)

text \<open>
  C2, amended. For a call of the generator that returns, with \<open>up_threshold\<close> and
  \<open>neutral_threshold\<close> the \<^verbatim>\<open>Up\<close> and \<^verbatim>\<open>Neutral\<close> entries of the current regime's row and
  \<open>coin\<close> the uniform draw: the new regime is \<^verbatim>\<open>Up\<close> if \<open>coin < up_threshold\<close>, else
  \<^verbatim>\<open>Neutral\<close> if \<open>coin < neutral_threshold\<close>, else \<^verbatim>\<open>Down\<close>. A coin equal to
  \<open>up_threshold\<close> never selects \<^verbatim>\<open>Up\<close>; it selects \<^verbatim>\<open>Neutral\<close> exactly when
  \<open>up_threshold < neutral_threshold\<close>, and \<^verbatim>\<open>Down\<close> otherwise.
\<close>

theorem exog_info_fn_regime:
  assumes "exog_info_fn rng m = Inr (ei, m1)"
    and "biasdf (exog_params (initial_args m)) = Some df"
    and "df_T_getitem df (bias (state m)) = Inr biasprob"
    and "series_getitem biasprob ''Up'' = Inr up_threshold"
    and "series_getitem biasprob ''Neutral'' = Inr neutral_threshold"
    and "uniform rng (prng m) = (coin, g1)"
  shows "ei_bias ei =
           (if coin < up_threshold then ''Up''
            else if coin < neutral_threshold then ''Neutral'' else ''Down'') \<and>
         (coin = up_threshold \<longrightarrow>
            ei_bias ei \<noteq> ''Up'' \<and>
            (ei_bias ei = ''Neutral'') = (up_threshold < neutral_threshold))"
proof -
  from exog_info_fn_Inr [OF assms(1)] assms(2,3,6)
  obtain b where sel:
    "select_bias (exog_params (initial_args m)) biasprob coin = Inr (ei_bias ei, b)"
    by auto
  from sel assms(4,5) show ?thesis
    by (auto simp: select_bias_def down_branch_def getitem_def
             split: if_splits option.splits)
qed

text \<open>
  The sample configuration in regime \<^verbatim>\<open>Neutral\<close> (thresholds \<open>3/10\<close> and \<open>7/10\<close>) with a
  coin of exactly \<open>3/10\<close>: the new regime is \<^verbatim>\<open>Neutral\<close>.
\<close>

theorem exog_info_fn_regime_witness:
  "exog_info_fn (script_rng []) (sample_model sample_biasdf 1 [3 / 10, 0])
     = Inr (\<lparr>ei_price = 10, ei_bias = ''Neutral''\<rparr>, sample_model sample_biasdf 1 []) \<and>
   biasdf (exog_params (initial_args (sample_model sample_biasdf 1 [3 / 10, 0])))
     = Some (cumsum_axis1 sample_biasdf) \<and>
   df_T_getitem (cumsum_axis1 sample_biasdf)
       (bias (state (sample_model sample_biasdf 1 [3 / 10, 0])))
     = Inr [(''Up'', 3 / 10), (''Neutral'', 7 / 10), (''Down'', 1)] \<and>
   series_getitem [(''Up'', 3 / 10), (''Neutral'', 7 / 10), (''Down'', 1)] ''Up'' = Inr (3 / 10) \<and>
   series_getitem [(''Up'', 3 / 10), (''Neutral'', 7 / 10), (''Down'', 1)] ''Neutral''
     = Inr (7 / 10) \<and>
   uniform (script_rng []) (prng (sample_model sample_biasdf 1 [3 / 10, 0])) = (3 / 10, [0]) \<and>
   ei_bias \<lparr>ei_price = 10, ei_bias = ''Neutral''\<rparr> = ''Neutral''"
  using exog_info_fn_regime
          [of "script_rng []" "sample_model sample_biasdf 1 [3 / 10, 0]"
              "\<lparr>ei_price = 10, ei_bias = ''Neutral''\<rparr>" "sample_model sample_biasdf 1 []"
              "cumsum_axis1 sample_biasdf"
              "[(''Up'', 3 / 10), (''Neutral'', 7 / 10), (''Down'', 1)]"
              "3 / 10" "7 / 10" "3 / 10" "[0]"]
  by (simp add: eval_defs)

section \<open>The transition\<close>

text \<open>
  C3. The transition returns resource \<open>0\<close> when \<open>sell = 1\<close> and the current resource
  otherwise, and the smoothed price \<open>(1 - \<alpha>) * price_smoothed + \<alpha> * new_price\<close> with
  \<open>\<alpha> = 7/10\<close>. It draws no randomness: its result does not depend on the random source,
  and in a step the source is left as the generator left it, with the transition's two
  values installed in the new state.
\<close>

theorem transition_fn_spec:
  "tr_resource (transition_fn m decision ei)
     = (if sell decision = 1 then 0 else resource (state m)) \<and>
   tr_price_smoothed (transition_fn m decision ei)
     = (1 - 7 / 10) * price_smoothed (state m) + 7 / 10 * ei_price ei \<and>
   transition_fn (m\<lparr>prng := g\<rparr>) decision ei = transition_fn m decision ei \<and>
   (step rng m decision = Inr (s', m') \<longrightarrow>
      (\<exists>ei' m1. exog_info_fn rng m = Inr (ei', m1) \<and> prng m' = prng m1 \<and>
         resource s' = tr_resource (transition_fn m decision ei') \<and>
         price_smoothed s' = tr_price_smoothed (transition_fn m decision ei')))"
proof -
  have "step rng m decision = Inr (s', m') \<longrightarrow>
      (\<exists>ei' m1. exog_info_fn rng m = Inr (ei', m1) \<and> prng m' = prng m1 \<and>
         resource s' = tr_resource (transition_fn m decision ei') \<and>
         price_smoothed s' = tr_price_smoothed (transition_fn m decision ei'))"
    by (auto simp: transition_fn_def Let_def dest!: step_Inr)
  then show ?thesis
    by (simp add: transition_fn_def Let_def)
qed

text \<open>
  A sale at price \<open>10\<close> with new price \<open>12\<close>: the resource becomes \<open>0\<close> and the smoothed
  price \<open>0.3 * 10 + 0.7 * 12 = 11.4\<close>.
\<close>

theorem transition_fn_spec_witness:
  "step (script_rng []) (sample_model sample_biasdf 1 [1 / 2, 1]) \<lparr>sell = 1\<rparr>
     = Inr (\<lparr>resource = 0, price = 12, price_smoothed = 57 / 5, bias = ''Neutral''\<rparr>,
            (sample_model sample_biasdf 1 [])
              \<lparr>state := \<lparr>resource = 0, price = 12, price_smoothed = 57 / 5, bias = ''Neutral''\<rparr>,
               objective := 10\<rparr>) \<and>
   tr_resource (transition_fn (sample_model sample_biasdf 1 [1 / 2, 1]) \<lparr>sell = 1\<rparr>
                  \<lparr>ei_price = 12, ei_bias = ''Neutral''\<rparr>) = 0 \<and>
   tr_price_smoothed (transition_fn (sample_model sample_biasdf 1 [1 / 2, 1]) \<lparr>sell = 1\<rparr>
                  \<lparr>ei_price = 12, ei_bias = ''Neutral''\<rparr>) = 57 / 5"
  using transition_fn_spec
          [of "sample_model sample_biasdf 1 [1 / 2, 1]" "\<lparr>sell = 1\<rparr>"
              "\<lparr>ei_price = 12, ei_bias = ''Neutral''\<rparr>" "[]" "script_rng []"
              "\<lparr>resource = 0, price = 12, price_smoothed = 57 / 5, bias = ''Neutral''\<rparr>"
              "(sample_model sample_biasdf 1 [])
                 \<lparr>state := \<lparr>resource = 0, price = 12, price_smoothed = 57 / 5,
                             bias = ''Neutral''\<rparr>,
                  objective := 10\<rparr>"]
  by (simp add: eval_defs)

section \<open>The price is never negative\<close>

lemma step_state: "step rng m d = Inr (s', m') \<Longrightarrow> state m' = s'"
  by (auto dest!: step_Inr)

lemma step_price_nonneg: "step rng m d = Inr (s', m') \<Longrightarrow> 0 \<le> price (state m')"
  by (auto dest!: step_Inr exog_info_fn_Inr)

lemma run_price_nonneg: "run rng m ds = Inr ms \<Longrightarrow> m' \<in> set ms \<Longrightarrow> 0 \<le> price (state m')"
proof (induction ds arbitrary: m ms)
  case Nil
  then show ?case by simp
next
  case (Cons d ds)
  then show ?case
    by (auto split: sum.splits simp: step_price_nonneg)
qed

text \<open>
  C4. The generator's new price is the current price plus the drawn change (a normal
  draw with the selected drift as mean and \<^verbatim>\<open>Variance\<close> as scale, made after the coin),
  replaced by \<open>0\<close> when negative. So the state a step returns and installs has a price
  \<open>\<ge> 0\<close>, and so has every state of a run, for every list of decisions and every
  random source.
\<close>

theorem price_clamped_nonnegative:
  "(exog_info_fn rng m = Inr (ei, m1) \<longrightarrow>
      (\<exists>biasprob b scale delta g2.
         select_bias (exog_params (initial_args m)) biasprob (fst (uniform rng (prng m)))
           = Inr (ei_bias ei, b) \<and>
         Variance (exog_params (initial_args m)) = Some scale \<and>
         normal rng b scale (snd (uniform rng (prng m))) = Inr (delta, g2) \<and>
         ei_price ei = (if price (state m) + delta < 0 then 0 else price (state m) + delta))) \<and>
   (step rng m d = Inr (s', m') \<longrightarrow> 0 \<le> price s' \<and> state m' = s') \<and>
   (run rng m ds = Inr ms \<longrightarrow> (\<forall>m' \<in> set ms. 0 \<le> price (state m')))"
proof (intro conjI impI)
  assume "exog_info_fn rng m = Inr (ei, m1)"
  from exog_info_fn_Inr [OF this]
  show "\<exists>biasprob b scale delta g2.
         select_bias (exog_params (initial_args m)) biasprob (fst (uniform rng (prng m)))
           = Inr (ei_bias ei, b) \<and>
         Variance (exog_params (initial_args m)) = Some scale \<and>
         normal rng b scale (snd (uniform rng (prng m))) = Inr (delta, g2) \<and>
         ei_price ei = (if price (state m) + delta < 0 then 0 else price (state m) + delta)"
    by blast
next
  assume "step rng m d = Inr (s', m')"
  then show "0 \<le> price s'" "state m' = s'"
    using step_price_nonneg step_state by fastforce+
next
  assume "run rng m ds = Inr ms"
  then show "\<forall>m' \<in> set ms. 0 \<le> price (state m')"
    by (blast dest: run_price_nonneg)
qed

text \<open>
  Price \<open>10\<close>, regime \<^verbatim>\<open>Neutral\<close>, a drawn change of \<open>0 + 2 * (-6) = -12\<close>: the new price
  is \<open>0\<close>, not \<open>-2\<close>.
\<close>

theorem price_clamped_nonnegative_witness:
  "exog_info_fn (script_rng []) (sample_model sample_biasdf 1 [1 / 2, - 6])
     = Inr (\<lparr>ei_price = 0, ei_bias = ''Neutral''\<rparr>, sample_model sample_biasdf 1 []) \<and>
   step (script_rng []) (sample_model sample_biasdf 1 [1 / 2, - 6]) \<lparr>sell = 0\<rparr>
     = Inr (\<lparr>resource = 1, price = 0, price_smoothed = 3, bias = ''Neutral''\<rparr>,
            (sample_model sample_biasdf 1 [])
              \<lparr>state := \<lparr>resource = 1, price = 0, price_smoothed = 3, bias = ''Neutral''\<rparr>\<rparr>) \<and>
   run (script_rng []) (sample_model sample_biasdf 1 [1 / 2, - 6]) [\<lparr>sell = 0\<rparr>]
     = Inr [(sample_model sample_biasdf 1 [])
              \<lparr>state := \<lparr>resource = 1, price = 0, price_smoothed = 3, bias = ''Neutral''\<rparr>\<rparr>] \<and>
   0 \<le> price (state ((sample_model sample_biasdf 1 [])
              \<lparr>state := \<lparr>resource = 1, price = 0, price_smoothed = 3, bias = ''Neutral''\<rparr>\<rparr>))"
  using price_clamped_nonnegative
          [where rng = "script_rng []" and m = "sample_model sample_biasdf 1 [1 / 2, - 6]"
             and ei = "\<lparr>ei_price = 0, ei_bias = ''Neutral''\<rparr>"
             and ?m1.0 = "sample_model sample_biasdf 1 []"
             and d = "\<lparr>sell = 0\<rparr>"
             and s' = "\<lparr>resource = 1, price = 0, price_smoothed = 3, bias = ''Neutral''\<rparr>"
             and m' = "(sample_model sample_biasdf 1 [])
              \<lparr>state := \<lparr>resource = 1, price = 0, price_smoothed = 3, bias = ''Neutral''\<rparr>\<rparr>"
             and ds = "[\<lparr>sell = 0\<rparr>]"
             and ms = "[(sample_model sample_biasdf 1 [])
              \<lparr>state := \<lparr>resource = 1, price = 0, price_smoothed = 3, bias = ''Neutral''\<rparr>\<rparr>]"]
  by (simp add: eval_defs)

section \<open>What a step leaves alone\<close>

text \<open>
  C9. A step that returns has changed the model in its \<open>state\<close>, \<open>objective\<close> and \<open>prng\<close>
  only: the exogenous parameters, \<open>T\<close>, the seed, the two schemas and the initial state
  are as before. The generator changes \<open>prng\<close> only, and returns the new price and the
  new regime.
\<close>

theorem step_frame:
  "(step rng m d = Inr (s', m') \<longrightarrow>
      m' = m\<lparr>prng := prng m', objective := objective m', state := s'\<rparr> \<and>
      exog_params (initial_args m') = exog_params (initial_args m) \<and>
      T (initial_args m') = T (initial_args m) \<and>
      seed (initial_args m') = seed (initial_args m) \<and>
      state_variable m' = state_variable m \<and>
      decision_variable m' = decision_variable m \<and>
      initial_state m' = initial_state m) \<and>
   (exog_info_fn rng m = Inr (ei, m1) \<longrightarrow> m1 = m\<lparr>prng := prng m1\<rparr>)"
  by (auto dest!: step_Inr exog_info_fn_Inr)

text \<open>A step and a generator call that return, on the sample configuration.\<close>

theorem step_frame_witness:
  "step (script_rng []) (sample_model sample_biasdf 1 [1 / 2, 1]) \<lparr>sell = 1\<rparr>
     = Inr (\<lparr>resource = 0, price = 12, price_smoothed = 57 / 5, bias = ''Neutral''\<rparr>,
            (sample_model sample_biasdf 1 [])
              \<lparr>state := \<lparr>resource = 0, price = 12, price_smoothed = 57 / 5, bias = ''Neutral''\<rparr>,
               objective := 10\<rparr>) \<and>
   exog_info_fn (script_rng []) (sample_model sample_biasdf 1 [1 / 2, 1])
     = Inr (\<lparr>ei_price = 12, ei_bias = ''Neutral''\<rparr>, sample_model sample_biasdf 1 []) \<and>
   initial_args ((sample_model sample_biasdf 1 [])
              \<lparr>state := \<lparr>resource = 0, price = 12, price_smoothed = 57 / 5, bias = ''Neutral''\<rparr>,
               objective := 10\<rparr>)
     = initial_args (sample_model sample_biasdf 1 [1 / 2, 1])"
  using step_frame
          [where rng = "script_rng []" and m = "sample_model sample_biasdf 1 [1 / 2, 1]"
             and d = "\<lparr>sell = 1\<rparr>"
             and s' = "\<lparr>resource = 0, price = 12, price_smoothed = 57 / 5, bias = ''Neutral''\<rparr>"
             and m' = "(sample_model sample_biasdf 1 [])
                 \<lparr>state := \<lparr>resource = 0, price = 12, price_smoothed = 57 / 5,
                             bias = ''Neutral''\<rparr>,
                  objective := 10\<rparr>"
             and ei = "\<lparr>ei_price = 12, ei_bias = ''Neutral''\<rparr>"
             and ?m1.0 = "sample_model sample_biasdf 1 []"]
  by (simp add: eval_defs)

section \<open>Decisions other than a sale\<close>

text \<open>
  C10. A step whose decision has any \<open>sell\<close> other than \<open>1\<close> is a hold: the new state
  has the resource of the old one, and the objective is unchanged.
\<close>

theorem hold_unless_sell_is_one:
  assumes "step rng m decision = Inr (s', m')" and "sell decision \<noteq> 1"
  shows "resource s' = resource (state m) \<and> objective m' = objective m"
  using assms by (auto simp: objective_fn_def dest!: step_Inr)

text \<open>A decision with \<open>sell = 2\<close>.\<close>

theorem hold_unless_sell_is_one_witness:
  "step (script_rng []) (sample_model sample_biasdf 1 [1 / 2, 1]) \<lparr>sell = 2\<rparr>
     = Inr (\<lparr>resource = 1, price = 12, price_smoothed = 57 / 5, bias = ''Neutral''\<rparr>,
            (sample_model sample_biasdf 1 [])
              \<lparr>state := \<lparr>resource = 1, price = 12, price_smoothed = 57 / 5,
                          bias = ''Neutral''\<rparr>\<rparr>) \<and>
   sell \<lparr>sell = 2\<rparr> \<noteq> 1 \<and>
   resource \<lparr>resource = 1, price = 12, price_smoothed = 57 / 5, bias = ''Neutral''\<rparr>
     = resource (state (sample_model sample_biasdf 1 [1 / 2, 1])) \<and>
   objective ((sample_model sample_biasdf 1 [])
              \<lparr>state := \<lparr>resource = 1, price = 12, price_smoothed = 57 / 5,
                          bias = ''Neutral''\<rparr>\<rparr>)
     = objective (sample_model sample_biasdf 1 [1 / 2, 1])"
  using hold_unless_sell_is_one
          [where rng = "script_rng []" and m = "sample_model sample_biasdf 1 [1 / 2, 1]"
             and decision = "\<lparr>sell = 2\<rparr>"
             and s' = "\<lparr>resource = 1, price = 12, price_smoothed = 57 / 5, bias = ''Neutral''\<rparr>"
             and m' = "(sample_model sample_biasdf 1 [])
              \<lparr>state := \<lparr>resource = 1, price = 12, price_smoothed = 57 / 5,
                          bias = ''Neutral''\<rparr>\<rparr>"]
  by (simp add: eval_defs)

section \<open>The resource over a run\<close>

lemma step_resource:
  "step rng m d = Inr (s', m') \<Longrightarrow>
     resource (state m') = (if sell d = 1 then 0 else resource (state m))"
  by (auto dest!: step_Inr)

lemma run_resource:
  "run rng m ds = Inr ms \<Longrightarrow> m' \<in> set ms \<Longrightarrow>
     resource (state m') = 0 \<or> resource (state m') = resource (state m)"
proof (induction ds arbitrary: m ms)
  case Nil
  then show ?case by simp
next
  case (Cons d ds)
  from Cons.prems(1) obtain s1 m1 ms1 where
    st: "step rng m d = Inr (s1, m1)" and rn: "run rng m1 ds = Inr ms1" and ms: "ms = m1 # ms1"
    by (auto split: sum.splits)
  from step_resource [OF st]
  have r1: "resource (state m1) = 0 \<or> resource (state m1) = resource (state m)"
    by (simp split: if_splits)
  show ?case
  proof (cases "m' = m1")
    case True
    with r1 show ?thesis by simp
  next
    case False
    with Cons.prems(2) ms have "m' \<in> set ms1" by simp
    from Cons.IH [OF rn this] r1 show ?thesis by auto
  qed
qed

lemma run_resource_sorted:
  "run rng m ds = Inr ms \<Longrightarrow>
     sorted_wrt (\<lambda>a b. resource (state a) = 0 \<longrightarrow> resource (state b) = 0) (m # ms) \<and>
     (0 \<le> resource (state m) \<longrightarrow>
        sorted_wrt (\<lambda>a b. resource (state b) \<le> resource (state a)) (m # ms))"
proof (induction ds arbitrary: m ms)
  case Nil
  then show ?case by simp
next
  case (Cons d ds)
  from Cons.prems obtain s1 m1 ms1 where
    st: "step rng m d = Inr (s1, m1)" and rn: "run rng m1 ds = Inr ms1" and ms: "ms = m1 # ms1"
    by (auto split: sum.splits)
  from step_resource [OF st]
  have r1: "resource (state m1) = 0 \<or> resource (state m1) = resource (state m)"
    by (simp split: if_splits)
  have later: "\<forall>x \<in> set ms. resource (state x) = 0 \<or> resource (state x) = resource (state m)"
    using run_resource [OF Cons.prems] by blast
  from Cons.IH [OF rn] r1 later ms show ?case
    by (auto simp del: sorted_wrt.simps(2) simp add: sorted_wrt.simps(2) [of _ m])
qed

text \<open>
  C6. Along a run (the starting model, then the model after each step), for every list
  of decisions: once the resource of a state is \<open>0\<close>, it is \<open>0\<close> in every later state;
  and from a starting resource \<open>\<ge> 0\<close> (the data model has \<open>0\<close> or \<open>1\<close>) the resource
  never increases.
\<close>

theorem resource_non_increasing:
  assumes "run rng m ds = Inr ms"
  shows "sorted_wrt (\<lambda>a b. resource (state a) = 0 \<longrightarrow> resource (state b) = 0) (m # ms) \<and>
         (0 \<le> resource (state m) \<longrightarrow>
            sorted_wrt (\<lambda>a b. resource (state b) \<le> resource (state a)) (m # ms))"
  using assms by (rule run_resource_sorted)

text \<open>
  Hold, sell, hold, sell from one unit held: the resources are \<open>1, 1, 0, 0, 0\<close>.
\<close>

theorem resource_non_increasing_witness:
  "run (script_rng []) (sample_model sample_biasdf 1 [1 / 2, 1, 1 / 2, 1, 1 / 2, 0, 1 / 2, 0])
       [\<lparr>sell = 0\<rparr>, \<lparr>sell = 1\<rparr>, \<lparr>sell = 0\<rparr>, \<lparr>sell = 1\<rparr>]
     = Inr (projr (run (script_rng [])
              (sample_model sample_biasdf 1 [1 / 2, 1, 1 / 2, 1, 1 / 2, 0, 1 / 2, 0])
              [\<lparr>sell = 0\<rparr>, \<lparr>sell = 1\<rparr>, \<lparr>sell = 0\<rparr>, \<lparr>sell = 1\<rparr>])) \<and>
   0 \<le> resource (state (sample_model sample_biasdf 1 [1 / 2, 1, 1 / 2, 1, 1 / 2, 0, 1 / 2, 0])) \<and>
   map (\<lambda>m. resource (state m))
       (sample_model sample_biasdf 1 [1 / 2, 1, 1 / 2, 1, 1 / 2, 0, 1 / 2, 0] #
        projr (run (script_rng [])
              (sample_model sample_biasdf 1 [1 / 2, 1, 1 / 2, 1, 1 / 2, 0, 1 / 2, 0])
              [\<lparr>sell = 0\<rparr>, \<lparr>sell = 1\<rparr>, \<lparr>sell = 0\<rparr>, \<lparr>sell = 1\<rparr>]))
     = [1, 1, 0, 0, 0]"
  using resource_non_increasing
          [of "script_rng []"
              "sample_model sample_biasdf 1 [1 / 2, 1, 1 / 2, 1, 1 / 2, 0, 1 / 2, 0]"
              "[\<lparr>sell = 0\<rparr>, \<lparr>sell = 1\<rparr>, \<lparr>sell = 0\<rparr>, \<lparr>sell = 1\<rparr>]"
              "projr (run (script_rng [])
                 (sample_model sample_biasdf 1 [1 / 2, 1, 1 / 2, 1, 1 / 2, 0, 1 / 2, 0])
                 [\<lparr>sell = 0\<rparr>, \<lparr>sell = 1\<rparr>, \<lparr>sell = 0\<rparr>, \<lparr>sell = 1\<rparr>])"]
  by (simp add: eval_defs)

section \<open>The objective over a run\<close>

lemma step_objective:
  "step rng m d = Inr (s', m') \<Longrightarrow>
     objective m' = objective m +
       (if sell d = 1 \<and> resource (state m) \<noteq> 0 then price (state m) else 0)"
  by (auto simp: objective_fn_def dest!: step_Inr exog_info_fn_Inr)

lemma run_objective_sorted:
  "run rng m ds = Inr ms \<Longrightarrow> 0 \<le> price (state m) \<Longrightarrow> sorted (map objective (m # ms))"
proof (induction ds arbitrary: m ms)
  case Nil
  then show ?case by simp
next
  case (Cons d ds)
  from Cons.prems(1) obtain s1 m1 ms1 where
    st: "step rng m d = Inr (s1, m1)" and rn: "run rng m1 ds = Inr ms1" and ms: "ms = m1 # ms1"
    by (auto split: sum.splits)
  from step_objective [OF st] Cons.prems(2) have le: "objective m \<le> objective m1"
    by (simp split: if_splits)
  from Cons.IH [OF rn step_price_nonneg [OF st]]
  have "sorted (map objective (m1 # ms1))" .
  with le ms show ?case by auto
qed

lemma run_objective_sorted_tail:
  "run rng m ds = Inr ms \<Longrightarrow> sorted (map objective ms)"
proof (cases ds)
  case Nil
  assume "run rng m ds = Inr ms"
  with Nil show ?thesis by simp
next
  case (Cons d ds')
  assume "run rng m ds = Inr ms"
  with Cons obtain s1 m1 ms1 where
    st: "step rng m d = Inr (s1, m1)" and rn: "run rng m1 ds' = Inr ms1" and ms: "ms = m1 # ms1"
    by (auto split: sum.splits)
  from run_objective_sorted [OF rn step_price_nonneg [OF st]] ms show ?thesis by simp
qed

text \<open>
  C7. Along a run the objective never decreases. After the first step this needs
  nothing, since every step leaves a price \<open>\<ge> 0\<close>; for the first step it needs the
  starting price to be \<open>\<ge> 0\<close>, as the data model has it (\<^verbatim>\<open>__init__\<close> does not check
  \<^verbatim>\<open>state_0\<close>). From a state with price \<open>\<ge> 0\<close>, the contribution of a step is \<open>\<ge> 0\<close>.
\<close>

theorem objective_non_decreasing:
  "(run rng m ds = Inr ms \<longrightarrow>
      sorted (map objective ms) \<and>
      (0 \<le> price (state m) \<longrightarrow> sorted (map objective (m # ms)))) \<and>
   (step rng m d = Inr (s', m') \<and> 0 \<le> price (state m) \<longrightarrow> objective m \<le> objective m') \<and>
   (0 \<le> price (state m) \<longrightarrow> 0 \<le> objective_fn m d ei)"
proof (intro conjI impI)
  assume "run rng m ds = Inr ms"
  then show "sorted (map objective ms)" by (rule run_objective_sorted_tail)
next
  assume "run rng m ds = Inr ms" "0 \<le> price (state m)"
  then show "sorted (map objective (m # ms))" by (rule run_objective_sorted)
next
  assume "step rng m d = Inr (s', m') \<and> 0 \<le> price (state m)"
  then show "objective m \<le> objective m'"
    using step_objective [of rng m d s' m'] by (simp split: if_splits)
next
  assume "0 \<le> price (state m)"
  then show "0 \<le> objective_fn m d ei" by (simp add: objective_fn_def)
qed

text \<open>
  Hold, sell, sell from one unit held at price \<open>10\<close>: the objectives are
  \<open>0, 0, 12, 12\<close>; a single sale at price \<open>10\<close> contributes \<open>10\<close>.
\<close>

theorem objective_non_decreasing_witness:
  "run (script_rng []) (sample_model sample_biasdf 1 [1 / 2, 1, 1 / 2, 1, 1 / 2, 0])
       [\<lparr>sell = 0\<rparr>, \<lparr>sell = 1\<rparr>, \<lparr>sell = 1\<rparr>]
     = Inr (projr (run (script_rng [])
              (sample_model sample_biasdf 1 [1 / 2, 1, 1 / 2, 1, 1 / 2, 0])
              [\<lparr>sell = 0\<rparr>, \<lparr>sell = 1\<rparr>, \<lparr>sell = 1\<rparr>])) \<and>
   0 \<le> price (state (sample_model sample_biasdf 1 [1 / 2, 1, 1 / 2, 1, 1 / 2, 0])) \<and>
   map objective
       (sample_model sample_biasdf 1 [1 / 2, 1, 1 / 2, 1, 1 / 2, 0] #
        projr (run (script_rng [])
              (sample_model sample_biasdf 1 [1 / 2, 1, 1 / 2, 1, 1 / 2, 0])
              [\<lparr>sell = 0\<rparr>, \<lparr>sell = 1\<rparr>, \<lparr>sell = 1\<rparr>]))
     = [0, 0, 12, 12] \<and>
   step (script_rng []) (sample_model sample_biasdf 1 [1 / 2, 1]) \<lparr>sell = 1\<rparr>
     = Inr (\<lparr>resource = 0, price = 12, price_smoothed = 57 / 5, bias = ''Neutral''\<rparr>,
            (sample_model sample_biasdf 1 [])
              \<lparr>state := \<lparr>resource = 0, price = 12, price_smoothed = 57 / 5, bias = ''Neutral''\<rparr>,
               objective := 10\<rparr>) \<and>
   0 \<le> price (state (sample_model sample_biasdf 1 [1 / 2, 1])) \<and>
   objective_fn (sample_model sample_biasdf 1 [1 / 2, 1]) \<lparr>sell = 1\<rparr>
      \<lparr>ei_price = 12, ei_bias = ''Neutral''\<rparr> = 10"
  using objective_non_decreasing
          [where rng = "script_rng []"
             and m = "sample_model sample_biasdf 1 [1 / 2, 1, 1 / 2, 1, 1 / 2, 0]"
             and ds = "[\<lparr>sell = 0\<rparr>, \<lparr>sell = 1\<rparr>, \<lparr>sell = 1\<rparr>]"
             and ms = "projr (run (script_rng [])
                 (sample_model sample_biasdf 1 [1 / 2, 1, 1 / 2, 1, 1 / 2, 0])
                 [\<lparr>sell = 0\<rparr>, \<lparr>sell = 1\<rparr>, \<lparr>sell = 1\<rparr>])"]
        objective_non_decreasing
          [where rng = "script_rng []"
             and m = "sample_model sample_biasdf 1 [1 / 2, 1]"
             and d = "\<lparr>sell = 1\<rparr>"
             and s' = "\<lparr>resource = 0, price = 12, price_smoothed = 57 / 5, bias = ''Neutral''\<rparr>"
             and m' = "(sample_model sample_biasdf 1 [])
              \<lparr>state := \<lparr>resource = 0, price = 12, price_smoothed = 57 / 5, bias = ''Neutral''\<rparr>,
               objective := 10\<rparr>"
             and ei = "\<lparr>ei_price = 12, ei_bias = ''Neutral''\<rparr>"]
  by (simp add: eval_defs)

section \<open>Random draws and reproducibility\<close>






text \<open>A construction that returns a model has passed every line of \<^verbatim>\<open>__init__\<close>.\<close>

lemma init_Returned:
  assumes "fst (init rng namedtuple sv dv state_0 exog_0 T0 seed0) = Returned m"
  shows "\<exists>df g s. biasdf exog_0 = Some df \<and> default_rng rng seed0 = Inr g \<and>
           typed_state sv state_0 = Some s \<and>
           m = \<lparr>initial_args =
                  \<lparr>seed = seed0, T = T0,
                   exog_params = exog_0\<lparr>biasdf := Some (cumsum_axis1 df)\<rparr>\<rparr>,
                prng = g, initial_state = state_0, state_variable = sv,
                decision_variable = dv, state = s, objective = 0\<rparr>"
  using assms
  by (auto simp: init_def getitem_def Let_def split: option.splits sum.splits)





section \<open>Construction does not check the table\<close>

text \<open>
  \<^verbatim>\<open>__init__\<close> returns a model for a table with a row that sums to \<open>7/8\<close>, and for a
  table without a \<^verbatim>\<open>Down\<close> column.
\<close>

theorem init_accepts_any_table_counterexample:
  "sum_list (snd (hd (df_rows short_biasdf))) = 7 / 8 \<and>
   fst (init (script_rng []) plain_namedtuple
          [''resource'', ''price'', ''price_smoothed'', ''bias''] [''sell'']
          (sample_state_0 1) (sample_exog short_biasdf) 10 42)
     = Returned (sample_model short_biasdf 1 []) \<and>
   df_columns no_down_biasdf = [''Up'', ''Neutral''] \<and>
   fst (init (script_rng []) plain_namedtuple
          [''resource'', ''price'', ''price_smoothed'', ''bias''] [''sell'']
          (sample_state_0 1) (sample_exog no_down_biasdf) 10 42)
     = Returned (sample_model no_down_biasdf 1 [])"
  by (simp add: init_def typed_state_def has_key_def plain_namedtuple_def eval_defs
        short_biasdf_def no_down_biasdf_def)

text \<open>
  C8, amended. Construction does not check the rows of \<^verbatim>\<open>biasdf\<close>. For a table present
  under the key, whether construction raises, and what, does not depend on the table:
  a row that does not sum to \<open>1\<close>, or a missing regime, raises nothing. A model that
  construction returns holds the row-wise running sums of the table as given, and so
  does the caller's dictionary after the call.
\<close>

theorem init_no_validation:
  "(fst (init rng namedtuple sv dv state_0 (exog_0\<lparr>biasdf := Some df\<rparr>) T0 seed0) = Raised e)
     = (fst (init rng namedtuple sv dv state_0 (exog_0\<lparr>biasdf := Some df'\<rparr>) T0 seed0)
          = Raised e) \<and>
   (fst (init rng namedtuple sv dv state_0 (exog_0\<lparr>biasdf := Some df\<rparr>) T0 seed0) = Returned m
      \<longrightarrow> biasdf (exog_params (initial_args m)) = Some (cumsum_axis1 df)) \<and>
   snd (init rng namedtuple sv dv state_0 (exog_0\<lparr>biasdf := Some df\<rparr>) T0 seed0)
     = exog_0\<lparr>biasdf := Some (cumsum_axis1 df)\<rparr>"
proof (intro conjI impI)
  show "(fst (init rng namedtuple sv dv state_0 (exog_0\<lparr>biasdf := Some df\<rparr>) T0 seed0)
           = Raised e)
     = (fst (init rng namedtuple sv dv state_0 (exog_0\<lparr>biasdf := Some df'\<rparr>) T0 seed0)
          = Raised e)"
    by (simp add: init_def getitem_def Let_def split: option.splits sum.splits)
next
  assume "fst (init rng namedtuple sv dv state_0 (exog_0\<lparr>biasdf := Some df\<rparr>) T0 seed0)
            = Returned m"
  from init_Returned [OF this]
  show "biasdf (exog_params (initial_args m)) = Some (cumsum_axis1 df)"
    by auto
next
  show "snd (init rng namedtuple sv dv state_0 (exog_0\<lparr>biasdf := Some df\<rparr>) T0 seed0)
     = exog_0\<lparr>biasdf := Some (cumsum_axis1 df)\<rparr>"
    by (simp add: init_def getitem_def Let_def)
qed

text \<open>
  Construction from the table whose \<^verbatim>\<open>Up\<close> row sums to \<open>7/8\<close>, beside construction from
  the sample table: neither raises, and the model holds the running sums.
\<close>

theorem init_no_validation_witness:
  "fst (init (script_rng []) plain_namedtuple
          [''resource'', ''price'', ''price_smoothed'', ''bias''] [''sell'']
          (sample_state_0 1) ((sample_exog sample_biasdf)\<lparr>biasdf := Some short_biasdf\<rparr>) 10 42)
     = Returned (sample_model short_biasdf 1 []) \<and>
   fst (init (script_rng []) plain_namedtuple
          [''resource'', ''price'', ''price_smoothed'', ''bias''] [''sell'']
          (sample_state_0 1) ((sample_exog sample_biasdf)\<lparr>biasdf := Some sample_biasdf\<rparr>) 10 42)
     = Returned (sample_model sample_biasdf 1 []) \<and>
   biasdf (exog_params (initial_args (sample_model short_biasdf 1 [] :: real list model)))
     = Some (cumsum_axis1 short_biasdf) \<and>
   snd (init (script_rng []) plain_namedtuple
          [''resource'', ''price'', ''price_smoothed'', ''bias''] [''sell'']
          (sample_state_0 1) ((sample_exog sample_biasdf)\<lparr>biasdf := Some short_biasdf\<rparr>) 10 42)
     = sample_exog (cumsum_axis1 short_biasdf)"
  using init_no_validation
          [where rng = "script_rng []" and namedtuple = plain_namedtuple
             and sv = "[''resource'', ''price'', ''price_smoothed'', ''bias'']"
             and dv = "[''sell'']" and ?state_0.0 = "sample_state_0 1"
             and ?exog_0.0 = "sample_exog sample_biasdf"
             and df = short_biasdf and df' = sample_biasdf
             and ?T0.0 = 10 and ?seed0.0 = 42
             and e = "KeyError ''biasdf''"
             and m = "sample_model short_biasdf 1 []"]
  by (simp add: init_def typed_state_def has_key_def plain_namedtuple_def getitem_def
        sample_exog_def sample_model_def sample_state_0_def script_rng_def Let_def)

end
